theory Spec2Isabelle
  imports Main "HOL-Library.Word" "HOL-Library.Sublist"
begin

section \<open>JavaScript strings\<close>

text \<open>
  A JavaScript string is a sequence of UTF-16 code units. Literals of the source are
  written \<open>js ''...''\<close>; the source only has ASCII literals.
\<close>

type_synonym code_unit = "16 word"
type_synonym jsstring = "code_unit list"

definition js :: "string \<Rightarrow> jsstring" where
  "js s = map of_char s"

definition comma :: code_unit where
  "comma = 0x2C"

text \<open>
  The code units that \<^verbatim>\<open>String.prototype.trim\<close> and \<^verbatim>\<open>parseInt\<close> strip:
  ECMAScript's WhiteSpace and LineTerminator productions.
\<close>

definition is_whitespace :: "code_unit \<Rightarrow> bool" where
  "is_whitespace c \<longleftrightarrow>
     c = 0x0009 \<or> c = 0x000A \<or> c = 0x000B \<or> c = 0x000C \<or> c = 0x000D \<or>
     c = 0x0020 \<or> c = 0x00A0 \<or> c = 0x1680 \<or> (0x2000 \<le> c \<and> c \<le> 0x200A) \<or>
     c = 0x2028 \<or> c = 0x2029 \<or> c = 0x202F \<or> c = 0x205F \<or> c = 0x3000 \<or>
     c = 0xFEFF"

text \<open>\<^verbatim>\<open>s.trim()\<close>: whitespace removed at both ends.\<close>

definition trim :: "jsstring \<Rightarrow> jsstring" where
  "trim s = rev (dropWhile is_whitespace (rev (dropWhile is_whitespace s)))"

text \<open>
  \<^verbatim>\<open>s.split(sep)\<close> for a separator of one code unit. \<open>split_at\<close> returns the piece
  before the first separator and the pieces after it, so the result of \<open>split\<close> is never
  the empty array: \<^verbatim>\<open>"".split(",")\<close> is \<^verbatim>\<open>[""]\<close> and \<^verbatim>\<open>",".split(",")\<close> is
  \<^verbatim>\<open>["", ""]\<close>.
\<close>

fun split_at :: "code_unit \<Rightarrow> jsstring \<Rightarrow> jsstring \<times> jsstring list" where
  "split_at sep [] = ([], [])"
| "split_at sep (c # cs) =
     (let (p, ps) = split_at sep cs
      in if c = sep then ([], p # ps) else (c # p, ps))"

definition split :: "jsstring \<Rightarrow> code_unit \<Rightarrow> jsstring list" where
  "split s sep = (let (p, ps) = split_at sep s in p # ps)"

text \<open>\<^verbatim>\<open>xs.join(sep)\<close> on an array of strings.\<close>

fun join :: "jsstring list \<Rightarrow> jsstring \<Rightarrow> jsstring" where
  "join [] sep = []"
| "join [x] sep = x"
| "join (x # y # ys) sep = x @ sep @ join (y # ys) sep"

text \<open>Decimal rendering of a non-negative integer, as a template literal prints it.\<close>

definition digit_unit :: "nat \<Rightarrow> code_unit" where
  "digit_unit d = of_nat (48 + d)"

fun dec :: "nat \<Rightarrow> jsstring" where
  "dec n = (if n < 10 then [digit_unit n] else dec (n div 10) @ [digit_unit (n mod 10)])"

declare dec.simps [simp del]

section \<open>Numbers read by \<^verbatim>\<open>parseInt\<close>\<close>

text \<open>
  A JavaScript number is an IEEE double. The results of \<^verbatim>\<open>parseInt(s, 10)\<close> are
  \<^verbatim>\<open>NaN\<close>, the two infinities, the negative zero, and the integers that a double holds
  exactly: \<open>Num i\<close> is the double whose value is \<open>i\<close>.
\<close>

datatype js_number = NaN | Num int | NegZero | Infinity | NegInfinity

text \<open>The number of binary digits of a natural number.\<close>

fun bit_length :: "nat \<Rightarrow> nat" where
  "bit_length m = (if m = 0 then 0 else Suc (bit_length (m div 2)))"

declare bit_length.simps [simp del]

text \<open>
  The double nearest to a natural number, ties to the even significand of 53 bits;
  \<open>None\<close> when the number rounds beyond the largest double, to infinity.
\<close>

definition round_to_double :: "nat \<Rightarrow> nat option" where
  "round_to_double m =
     (let n = bit_length m
      in if n \<le> 53 then Some m
         else
           (let sh = n - 53; q = m div 2 ^ sh; r = m mod 2 ^ sh; half = 2 ^ (sh - 1);
                q' = (if half < r \<or> (r = half \<and> odd q) then q + 1 else q);
                v = q' * 2 ^ sh
            in if 2 ^ 1024 \<le> v then None else Some v))"

definition is_digit :: "code_unit \<Rightarrow> bool" where
  "is_digit c \<longleftrightarrow> 0x30 \<le> c \<and> c \<le> 0x39"

definition digit_val :: "code_unit \<Rightarrow> nat" where
  "digit_val c = unat c - 48"

definition digits_val :: "jsstring \<Rightarrow> nat" where
  "digits_val ds = foldl (\<lambda>acc c. 10 * acc + digit_val c) 0 ds"

text \<open>
  \<^verbatim>\<open>parseInt(s, 10)\<close>: leading whitespace is skipped, one sign is read, then the
  longest prefix of decimal digits; with no digit the result is \<^verbatim>\<open>NaN\<close>. With
  radix 10 a \<^verbatim>\<open>0x\<close> prefix is not recognised. The result is the double nearest to
  the value of the digits, as Node computes it, with the sign read.
\<close>

definition parseInt10 :: "jsstring \<Rightarrow> js_number" where
  "parseInt10 s =
     (let t = dropWhile is_whitespace s;
          (negative, u) = (case t of
                             [] \<Rightarrow> (False, [])
                           | c # cs \<Rightarrow> if c = 0x2D then (True, cs)
                                       else if c = 0x2B then (False, cs) else (False, t));
          z = takeWhile is_digit u
      in if z = [] then NaN
         else (case round_to_double (digits_val z) of
                 None \<Rightarrow> if negative then NegInfinity else Infinity
               | Some v \<Rightarrow> if negative then (if v = 0 then NegZero else Num (- int v))
                           else Num (int v)))"

text \<open>
  How a template literal prints a number (\<^verbatim>\<open>Number::toString\<close>). For a positive
  integer \<open>m\<close> of \<open>n\<close> decimal digits it takes the fewest digits \<open>s\<close>, \<open>k\<close> of them, such
  that \<open>s\<close> followed by \<open>n - k\<close> zeros still rounds to \<open>m\<close>, the nearest such \<open>s\<close> when
  there are two. \<open>candidate\<close> is that \<open>s\<close> for a given \<open>k\<close>, when there is one.
\<close>

definition candidate :: "nat \<Rightarrow> nat \<Rightarrow> nat \<Rightarrow> nat option" where
  "candidate m n k =
     (let p = 10 ^ (n - k); lo = m div p; hi = lo + 1;
          ok = (\<lambda>s. 10 ^ (k - 1) \<le> s \<and> s < 10 ^ k \<and> round_to_double (s * p) = Some m)
      in if ok lo \<and> ok hi then
           (if m - lo * p < hi * p - m then Some lo
            else if hi * p - m < m - lo * p then Some hi
            else Some (if even lo then lo else hi))
         else if ok lo then Some lo
         else if ok hi then Some hi
         else None)"

fun shortest_digits :: "nat \<Rightarrow> nat \<Rightarrow> nat list \<Rightarrow> nat \<times> nat" where
  "shortest_digits m n [] = (n, m)"
| "shortest_digits m n (k # ks) =
     (case candidate m n k of Some s \<Rightarrow> (k, s) | None \<Rightarrow> shortest_digits m n ks)"

text \<open>
  Up to 21 digits the number is printed in full, the digits of \<open>s\<close> and then zeros; from
  22 digits on it is printed with an exponent.
\<close>

definition positive_to_string :: "nat \<Rightarrow> jsstring" where
  "positive_to_string m =
     (let n = length (dec m); (k, s) = shortest_digits m n [1..<n]
      in if n \<le> 21 then dec s @ replicate (n - k) (digit_unit 0)
         else (case dec s of
                 [] \<Rightarrow> []
               | d # ds \<Rightarrow> (if ds = [] then [d] else d # js ''.'' @ ds)
                           @ js ''e+'' @ dec (n - 1)))"

definition number_to_string :: "js_number \<Rightarrow> jsstring" where
  "number_to_string x =
     (case x of
        NaN \<Rightarrow> js ''NaN''
      | Infinity \<Rightarrow> js ''Infinity''
      | NegInfinity \<Rightarrow> js ''-Infinity''
      | NegZero \<Rightarrow> js ''0''
      | Num i \<Rightarrow> if i = 0 then js ''0''
                 else if i < 0 then js ''-'' @ positive_to_string (nat (- i))
                 else positive_to_string (nat i))"

section \<open>The requested set\<close>

text \<open>
  A JavaScript \<^verbatim>\<open>Set\<close> of strings keeps its members in insertion order without
  repetition; it is the list of members. \<open>new_Set\<close> is \<^verbatim>\<open>new Set(array)\<close>.
\<close>

type_synonym string_set = "jsstring list"

definition Set_has :: "string_set \<Rightarrow> jsstring \<Rightarrow> bool" where
  "Set_has s x \<longleftrightarrow> x \<in> set s"

definition Set_add :: "string_set \<Rightarrow> jsstring \<Rightarrow> string_set" where
  "Set_add s x = (if Set_has s x then s else s @ [x])"

definition Set_size :: "string_set \<Rightarrow> nat" where
  "Set_size s = length s"

definition new_Set :: "jsstring list \<Rightarrow> string_set" where
  "new_Set xs = foldl Set_add [] xs"

text \<open>
  A thrown value, with what the program reads of it:
  \<^verbatim>\<open>error instanceof Error ? error.message : String(error)\<close>. \<open>ErrorObject\<close> is an
  \<^verbatim>\<open>Error\<close> with its message, \<open>NonError\<close> another value with the string it converts
  to, \<open>Unprintable\<close> a value for which that expression throws a \<^verbatim>\<open>TypeError\<close>, such
  as \<^verbatim>\<open>Object.create(null)\<close>.
\<close>

datatype thrown = ErrorObject jsstring | NonError jsstring | Unprintable

fun error_text :: "thrown \<Rightarrow> thrown + jsstring" where
  "error_text (ErrorObject message) = Inr message"
| "error_text (NonError as_string) = Inr as_string"
| "error_text Unprintable = Inl (ErrorObject (js ''Cannot convert object to primitive value''))"

text \<open>
  The value of \<^verbatim>\<open>argv.tools\<close>: the string given, the empty string by default, and an
  array of strings when \<^verbatim>\<open>--tools\<close> is given more than once.
\<close>

datatype tools_value = Str jsstring | Arr "jsstring list"

record argv =
  tools :: tools_value
  list_tools :: bool

text \<open>
  Lines 30 to 33 of \<^verbatim>\<open>index.ts\<close>:
  \<^verbatim>\<open>toolsString = argvObj['tools'] || ''\<close> and
  \<^verbatim>\<open>new Set(toolsString ? toolsString.split(',').map(tool => tool.trim()) : [])\<close>.
  The empty string is the only falsy string, and every array is truthy. An array has no
  \<^verbatim>\<open>split\<close>, so the call throws a \<^verbatim>\<open>TypeError\<close>.
\<close>

definition toolsString :: "argv \<Rightarrow> tools_value" where
  "toolsString a =
     (case tools a of
        Str s \<Rightarrow> if s \<noteq> [] then Str s else Str []
      | Arr xs \<Rightarrow> Arr xs)"

definition specifiedTools :: "argv \<Rightarrow> thrown + string_set" where
  "specifiedTools a =
     (case toolsString a of
        Str s \<Rightarrow> Inr (new_Set (if s \<noteq> [] then map trim (split s comma) else []))
      | Arr xs \<Rightarrow> Inl (ErrorObject (js ''toolsString.split is not a function'')))"

section \<open>The registry, the environment and the collaborators\<close>

text \<open>
  A tool descriptor as \<^verbatim>\<open>index.ts\<close> reads it. Schemas and handlers are opaque to
  this file, which only passes them on.
\<close>

record ('s, 'h) tool =
  name :: jsstring
  description :: jsstring
  schema :: 's
  handler :: 'h
  enabled :: bool

text \<open>
  \<^verbatim>\<open>toolRegistry\<close> is imported from \<^verbatim>\<open>./tools/index.js\<close>; it is a parameter here,
  given as the sequence \<^verbatim>\<open>Object.entries(toolRegistry)\<close>.
\<close>

type_synonym ('s, 'h) registry = "(jsstring \<times> ('s, 'h) tool) list"

datatype transport = StreamableHTTP js_number | Stdio

text \<open>What the process does, in the order it does it.\<close>

datatype ('s, 'h) event =
    ConsoleLog jsstring
  | Log jsstring
  | ServerCreated
  | ToolRegistered jsstring jsstring 's 'h
  | TransportConstructed transport
  | OnerrorAttached transport
  | Connected transport

record env =
  EXA_API_KEY :: "jsstring option"
  PORT :: "jsstring option"

text \<open>
  The protocol SDK and the module loader are outside the repository. Each of their calls
  either returns or throws; \<open>Some e\<close> is the value thrown. \<open>server_tool\<close> sees the
  events so far, so it may reject a registration because of an earlier one; its other
  arguments are the four that \<^verbatim>\<open>setupTools\<close> passes.
  \<open>JSON_stringify\<close> is what \<^verbatim>\<open>JSON.stringify\<close> does with a caught value: it returns
  a text, or throws, as on a cyclic object.
\<close>

record ('s, 'h) world =
  server_tool :: "('s, 'h) event list \<Rightarrow> jsstring \<Rightarrow> jsstring \<Rightarrow> 's \<Rightarrow> 'h \<Rightarrow> thrown option"
  import_http :: "thrown option"
  new_http :: "js_number \<Rightarrow> thrown option"
  import_stdio :: "thrown option"
  new_stdio :: "thrown option"
  server_connect :: "transport \<Rightarrow> thrown option"
  JSON_stringify :: "thrown \<Rightarrow> thrown + jsstring"

section \<open>The server\<close>

text \<open>
  \<^verbatim>\<open>log\<close> is imported from \<^verbatim>\<open>./utils/logger.js\<close>. Modelled from the spec: a call
  of \<^verbatim>\<open>log\<close> records its message on the diagnostic stream, here the event \<open>Log\<close>, and
  returns.
\<close>

type_synonym ('s, 'h, 'a) outcome = "(thrown + 'a) \<times> ('s, 'h) event list"

text \<open>
  \<^verbatim>\<open>shouldRegister\<close> of \<^verbatim>\<open>setupTools\<close>:
  \<^verbatim>\<open>specifiedTools.size > 0 ? specifiedTools.has(toolId) : tool.enabled\<close>.
\<close>

definition shouldRegister :: "string_set \<Rightarrow> jsstring \<Rightarrow> ('s, 'h) tool \<Rightarrow> bool" where
  "shouldRegister st toolId t = (if Set_size st > 0 then Set_has st toolId else enabled t)"

definition registration :: "('s, 'h) tool \<Rightarrow> ('s, 'h) event" where
  "registration t = ToolRegistered (name t) (description t) (schema t) (handler t)"

text \<open>
  The \<^verbatim>\<open>forEach\<close> of \<^verbatim>\<open>setupTools\<close> over \<^verbatim>\<open>Object.entries(toolRegistry)\<close>, with
  the array \<^verbatim>\<open>registeredTools\<close> and the events so far. A throw of
  \<^verbatim>\<open>this.server.tool\<close> ends the loop.
\<close>

fun setupTools_forEach ::
  "('s, 'h) world \<Rightarrow> string_set \<Rightarrow> ('s, 'h) registry \<Rightarrow> jsstring list \<Rightarrow>
     ('s, 'h) event list \<Rightarrow> ('s, 'h, jsstring list) outcome" where
  "setupTools_forEach w st [] registeredTools tr = (Inr registeredTools, tr)"
| "setupTools_forEach w st ((toolId, t) # rest) registeredTools tr =
     (if shouldRegister st toolId t then
        (case server_tool w tr (name t) (description t) (schema t) (handler t) of
           Some err \<Rightarrow> (Inl err, tr)
         | None \<Rightarrow>
             setupTools_forEach w st rest (registeredTools @ [toolId]) (tr @ [registration t]))
      else setupTools_forEach w st rest registeredTools tr)"

definition setupTools ::
  "('s, 'h) world \<Rightarrow> string_set \<Rightarrow> ('s, 'h) registry \<Rightarrow> ('s, 'h) event list \<Rightarrow>
     ('s, 'h, jsstring list) outcome" where
  "setupTools w st reg tr = setupTools_forEach w st reg [] tr"

text \<open>
  \<^verbatim>\<open>process.env.PORT ? parseInt(process.env.PORT, 10) : 8080\<close>. An unset variable
  is \<^verbatim>\<open>undefined\<close>; \<^verbatim>\<open>undefined\<close> and the empty string are the falsy values.
\<close>

definition port_selection :: "env \<Rightarrow> js_number" where
  "port_selection e =
     (case PORT e of
        None \<Rightarrow> Num 8080
      | Some p \<Rightarrow> if p \<noteq> [] then parseInt10 p else Num 8080)"

text \<open>
  The body of the inner \<^verbatim>\<open>try\<close> of \<^verbatim>\<open>run\<close>: the dynamic import, the port, the
  constructor. The result is the transport and \<^verbatim>\<open>usingHttp\<close>.
\<close>

definition http_attempt ::
  "('s, 'h) world \<Rightarrow> env \<Rightarrow> ('s, 'h) event list \<Rightarrow> ('s, 'h, transport \<times> bool) outcome" where
  "http_attempt w e tr =
     (case import_http w of
        Some err \<Rightarrow> (Inl err, tr)
      | None \<Rightarrow>
          (let port = port_selection e
           in case new_http w port of
                Some err \<Rightarrow> (Inl err, tr)
              | None \<Rightarrow>
                  (Inr (StreamableHTTP port, True),
                   tr @ [TransportConstructed (StreamableHTTP port),
                         Log (js ''Using Streamable HTTP transport on port ''
                              @ number_to_string port)])))"

text \<open>
  The \<^verbatim>\<open>catch (err)\<close> block of the inner \<^verbatim>\<open>try\<close>. The message of the first
  \<^verbatim>\<open>log\<close> is built before anything else, and \<^verbatim>\<open>JSON.stringify\<close> may throw.
\<close>

definition stdio_fallback ::
  "('s, 'h) world \<Rightarrow> thrown \<Rightarrow> ('s, 'h) event list \<Rightarrow> ('s, 'h, transport \<times> bool) outcome" where
  "stdio_fallback w err tr =
     (case JSON_stringify w err of
        Inl err2 \<Rightarrow> (Inl err2, tr)
      | Inr text \<Rightarrow>
          (let tr1 = tr @ [Log (js ''[EXA-MCP-DEBUG] Failed to load HTTP transport: '' @ text)]
           in case import_stdio w of
                Some err2 \<Rightarrow> (Inl err2, tr1)
              | None \<Rightarrow>
                  (case new_stdio w of
                     Some err2 \<Rightarrow> (Inl err2, tr1)
                   | None \<Rightarrow>
                       (Inr (Stdio, False),
                        tr1 @ [TransportConstructed Stdio,
                               Log (js ''Using stdio transport'')]))))"

text \<open>Lines 110 to 126 of \<^verbatim>\<open>index.ts\<close>: the transport selection of \<^verbatim>\<open>run\<close>.\<close>

definition transport_selector ::
  "('s, 'h) world \<Rightarrow> env \<Rightarrow> ('s, 'h) event list \<Rightarrow> ('s, 'h, transport \<times> bool) outcome" where
  "transport_selector w e tr =
     (case http_attempt w e tr of
        (Inl err, tr1) \<Rightarrow> stdio_fallback w err tr1
      | (Inr r, tr1) \<Rightarrow> (Inr r, tr1))"

text \<open>The body of the outer \<^verbatim>\<open>try\<close> of \<^verbatim>\<open>run\<close>.\<close>

definition run_try ::
  "('s, 'h) world \<Rightarrow> env \<Rightarrow> string_set \<Rightarrow> ('s, 'h) registry \<Rightarrow> ('s, 'h) event list \<Rightarrow>
     ('s, 'h, unit) outcome" where
  "run_try w e st reg tr =
     (case setupTools w st reg tr of
        (Inl err, tr1) \<Rightarrow> (Inl err, tr1)
      | (Inr registeredTools, tr1) \<Rightarrow>
          (let tr2 = tr1 @ [Log (js ''Starting Exa MCP server with ''
                                 @ dec (length registeredTools) @ js '' tools: ''
                                 @ join registeredTools (js '', ''))]
           in case transport_selector w e tr2 of
                (Inl err, tr3) \<Rightarrow> (Inl err, tr3)
              | (Inr (t, usingHttp), tr3) \<Rightarrow>
                  (let tr4 = tr3 @ [OnerrorAttached t]
                   in case server_connect w t of
                        Some err \<Rightarrow> (Inl err, tr4)
                      | None \<Rightarrow>
                          (Inr (),
                           tr4 @ [Connected t,
                                  Log (if usingHttp
                                       then js ''Exa Search MCP server running on HTTP (cloud/desktop compatible)''
                                       else js ''Exa Search MCP server running on stdio (CLI/desktop compatible)'')]))))"

text \<open>
  \<^verbatim>\<open>run\<close>: the outer \<^verbatim>\<open>catch\<close> logs the error and throws it again. When the text
  of the error cannot be read, building the message throws and that error leaves
  \<^verbatim>\<open>run\<close> instead, with nothing logged.
\<close>

definition run ::
  "('s, 'h) world \<Rightarrow> env \<Rightarrow> string_set \<Rightarrow> ('s, 'h) registry \<Rightarrow> ('s, 'h) event list \<Rightarrow>
     ('s, 'h, unit) outcome" where
  "run w e st reg tr =
     (case run_try w e st reg tr of
        (Inl err, tr1) \<Rightarrow>
          (case error_text err of
             Inl err2 \<Rightarrow> (Inl err2, tr1)
           | Inr text \<Rightarrow>
               (Inl err, tr1 @ [Log (js ''Server initialization error: '' @ text)]))
      | (Inr u, tr1) \<Rightarrow> (Inr u, tr1))"

section \<open>The process\<close>

text \<open>
  How the module ends: with \<^verbatim>\<open>process.exit(n)\<close>; with an error that nothing catches,
  thrown at top level or out of the last statement's \<^verbatim>\<open>catch\<close>, on which Node ends the
  process with status 1; or by completing, when \<^verbatim>\<open>run\<close> has returned and the module
  has no statement left. What a completed module's process does next is up to the
  connected transport: it lives as long as the transport keeps it busy.
\<close>

datatype ending = Exit nat | Uncaught thrown | Completed

text \<open>The constructor of \<^verbatim>\<open>ExaServer\<close>.\<close>

definition ExaServer :: "('s, 'h) event list \<Rightarrow> ('s, 'h) event list" where
  "ExaServer tr = tr @ [ServerCreated, Log (js ''Server initialized'')]"

text \<open>The last statement of the module: create the server and run it.\<close>

definition create_and_run ::
  "('s, 'h) world \<Rightarrow> env \<Rightarrow> string_set \<Rightarrow> ('s, 'h) registry \<Rightarrow>
     ('s, 'h) event list \<times> ending" where
  "create_and_run w e st reg =
     (case run w e st reg (ExaServer []) of
        (Inl err, tr) \<Rightarrow>
          (case error_text err of
             Inl err2 \<Rightarrow> (tr, Uncaught err2)
           | Inr text \<Rightarrow> (tr @ [Log (js ''Fatal server error: '' @ text)], Exit 1))
      | (Inr u, tr) \<Rightarrow> (tr, Completed))"

text \<open>What \<^verbatim>\<open>--list-tools\<close> prints for one entry of the registry.\<close>

definition list_entry :: "jsstring \<times> ('s, 'h) tool \<Rightarrow> ('s, 'h) event list" where
  "list_entry entry =
     (case entry of (toolId, t) \<Rightarrow>
        [ConsoleLog (js ''- '' @ toolId @ js '': '' @ name t),
         ConsoleLog (js ''  Description: '' @ description t),
         ConsoleLog (js ''  Enabled by default: '' @ (if enabled t then js ''Yes'' else js ''No'')),
         ConsoleLog []])"

text \<open>
  The module from top to bottom, after \<^verbatim>\<open>dotenv.config()\<close> and once \<^verbatim>\<open>yargs\<close> has
  returned the parsed command line: \<open>e\<close> is \<^verbatim>\<open>process.env\<close> as \<^verbatim>\<open>dotenv\<close> left it.
  The requested set is built first, so a throw there ends the module before the listing
  and before the check of the credential. \<^verbatim>\<open>!API_KEY\<close> holds of an unset variable and
  of the empty string.
\<close>

definition main ::
  "('s, 'h) world \<Rightarrow> argv \<Rightarrow> env \<Rightarrow> ('s, 'h) registry \<Rightarrow> ('s, 'h) event list \<times> ending" where
  "main w a e reg =
     (case specifiedTools a of
        Inl err \<Rightarrow> ([], Uncaught err)
      | Inr st \<Rightarrow>
          if list_tools a then
            (ConsoleLog (js ''Available tools:'') # concat (map list_entry reg), Exit 0)
          else if (case EXA_API_KEY e of None \<Rightarrow> True | Some k \<Rightarrow> k = []) then
            ([], Uncaught (ErrorObject (js ''EXA_API_KEY environment variable is required'')))
          else create_and_run w e st reg)"

section \<open>Registering a selection in order\<close>

text \<open>
  The resolver of the specification returns the selected entries in registry order, and
  the facade registers each of them. \<open>register_in_order\<close> registers every entry of a
  list, from first to last, until the SDK rejects one.
\<close>

fun register_in_order ::
  "('s, 'h) world \<Rightarrow> ('s, 'h) registry \<Rightarrow> jsstring list \<Rightarrow> ('s, 'h) event list \<Rightarrow>
     ('s, 'h, jsstring list) outcome" where
  "register_in_order w [] ids tr = (Inr ids, tr)"
| "register_in_order w ((toolId, t) # rest) ids tr =
     (case server_tool w tr (name t) (description t) (schema t) (handler t) of
        Some err \<Rightarrow> (Inl err, tr)
      | None \<Rightarrow> register_in_order w rest (ids @ [toolId]) (tr @ [registration t]))"

text \<open>
  The two selections of the specification, in registry order: the entries whose id was
  requested, and the entries enabled by default.
\<close>

definition requested_of :: "string_set \<Rightarrow> ('s, 'h) registry \<Rightarrow> ('s, 'h) registry" where
  "requested_of st reg = filter (\<lambda>entry. Set_has st (fst entry)) reg"

definition defaults_of :: "('s, 'h) registry \<Rightarrow> ('s, 'h) registry" where
  "defaults_of reg = filter (\<lambda>entry. enabled (snd entry)) reg"

text \<open>The SDK accepts the registration of every entry of a selection, whatever came before.\<close>

definition accepts :: "('s, 'h) world \<Rightarrow> ('s, 'h) registry \<Rightarrow> bool" where
  "accepts w sel \<longleftrightarrow>
     (\<forall>tr. \<forall>entry \<in> set sel.
        server_tool w tr (name (snd entry)) (description (snd entry)) (schema (snd entry))
          (handler (snd entry)) = None)"

text \<open>
  Construction of the network transport throws: the dynamic import does, or the constructor
  does at the selected port. Likewise for the pipe transport.
\<close>

definition http_throws :: "('s, 'h) world \<Rightarrow> env \<Rightarrow> thrown \<Rightarrow> bool" where
  "http_throws w e err \<longleftrightarrow>
     import_http w = Some err \<or>
     (import_http w = None \<and> new_http w (port_selection e) = Some err)"

definition stdio_throws :: "('s, 'h) world \<Rightarrow> thrown \<Rightarrow> bool" where
  "stdio_throws w err \<longleftrightarrow>
     import_stdio w = Some err \<or> (import_stdio w = None \<and> new_stdio w = Some err)"

text \<open>The events of a run that construct, observe or connect a transport.\<close>

fun is_transport_event :: "('s, 'h) event \<Rightarrow> bool" where
  "is_transport_event (TransportConstructed t) = True"
| "is_transport_event (OnerrorAttached t) = True"
| "is_transport_event (Connected t) = True"
| "is_transport_event ev = False"

definition transport_events :: "('s, 'h) event list \<Rightarrow> ('s, 'h) event list" where
  "transport_events tr = filter is_transport_event tr"

section \<open>Sample values\<close>

text \<open>A world in which every call of a collaborator returns, and a registry of two tools.\<close>

definition sample_world :: "(unit, unit) world" where
  "sample_world =
     \<lparr>server_tool = (\<lambda>tr n d s h. None), import_http = None, new_http = (\<lambda>port. None),
      import_stdio = None, new_stdio = None, server_connect = (\<lambda>t. None),
      JSON_stringify = (\<lambda>err. Inr (js ''{}''))\<rparr>"

definition sample_registry :: "(unit, unit) registry" where
  "sample_registry =
     [(js ''a'', \<lparr>name = js ''A'', description = js ''first'', schema = (), handler = (),
                  enabled = True\<rparr>),
      (js ''b'', \<lparr>name = js ''B'', description = js ''second'', schema = (), handler = (),
                  enabled = False\<rparr>)]"

text \<open>
  A world without the network transport module whose pipe transport cannot be constructed
  either, a world whose network transport constructor throws, and an environment with a
  credential.
\<close>

definition failing_world :: "(unit, unit) world" where
  "failing_world =
     sample_world\<lparr>import_http := Some (ErrorObject (js ''no http'')),
                  new_stdio := Some (ErrorObject (js ''no stdio''))\<rparr>"

definition stdio_world :: "(unit, unit) world" where
  "stdio_world = sample_world\<lparr>new_http := (\<lambda>port. Some (NonError (js ''refused'')))\<rparr>"

definition sample_env :: env where
  "sample_env = \<lparr>EXA_API_KEY = Some (js ''key''), PORT = None\<rparr>"

definition sample_argv :: argv where
  "sample_argv = \<lparr>tools = Str [], list_tools = False\<rparr>"

text \<open>
  The command line \<^verbatim>\<open>--tools a --tools b\<close>, with and without \<^verbatim>\<open>--list-tools\<close>, and
  an environment without the credential.
\<close>

definition repeated_tools_argv :: argv where
  "repeated_tools_argv = \<lparr>tools = Arr [js ''a'', js ''b''], list_tools = False\<rparr>"

definition repeated_tools_listing_argv :: argv where
  "repeated_tools_listing_argv = \<lparr>tools = Arr [js ''a'', js ''b''], list_tools = True\<rparr>"

definition keyless_env :: env where
  "keyless_env = \<lparr>EXA_API_KEY = None, PORT = None\<rparr>"

text \<open>
  A world without the network transport module in which \<^verbatim>\<open>connect\<close> rejects with a
  value that has no string conversion.
\<close>

definition unprintable_world :: "(unit, unit) world" where
  "unprintable_world =
     sample_world\<lparr>import_http := Some (ErrorObject (js ''no http'')),
                  server_connect := (\<lambda>t. Some Unprintable)\<rparr>"

text \<open>Environments with \<^verbatim>\<open>PORT\<close> set to the empty string and to \<^verbatim>\<open>3000\<close>.\<close>

definition empty_port_env :: env where
  "empty_port_env = \<lparr>EXA_API_KEY = Some (js ''key''), PORT = Some []\<rparr>"

definition port_3000_env :: env where
  "port_3000_env = \<lparr>EXA_API_KEY = Some (js ''key''), PORT = Some (js ''3000'')\<rparr>"

section \<open>Enablement\<close>

text \<open>The definitions that the evaluation of a sample run unfolds.\<close>

lemmas run_defs =
  main_def create_and_run_def run_def run_try_def setupTools_def transport_selector_def
  http_attempt_def stdio_fallback_def shouldRegister_def specifiedTools_def toolsString_def
  new_Set_def Set_size_def Set_has_def Set_add_def ExaServer_def registration_def port_selection_def
  digit_unit_def list_entry_def Let_def

lemmas sample_defs =
  sample_argv_def sample_env_def sample_registry_def failing_world_def stdio_world_def
  unprintable_world_def sample_world_def

lemma setupTools_forEach_filter:
  "setupTools_forEach w st reg ids tr =
     register_in_order w (filter (\<lambda>entry. shouldRegister st (fst entry) (snd entry)) reg) ids tr"
  by (induction reg arbitrary: ids tr) (auto split: option.splits)

lemma setupTools_refines:
  "setupTools w st reg tr =
     register_in_order w (filter (\<lambda>entry. shouldRegister st (fst entry) (snd entry)) reg) [] tr"
  by (simp add: setupTools_def setupTools_forEach_filter)

lemma register_in_order_returns:
  "register_in_order w sel ids tr = (Inr out, tr') \<Longrightarrow>
     out = ids @ map fst sel \<and> tr' = tr @ map (registration \<circ> snd) sel"
proof (induction sel arbitrary: ids tr)
  case Nil
  then show ?case by simp
next
  case (Cons entry sel)
  obtain toolId t where entry: "entry = (toolId, t)"
    by (cases entry)
  from Cons.prems entry
  have step: "register_in_order w sel (ids @ [toolId]) (tr @ [registration t]) = (Inr out, tr')"
    by (simp split: option.splits)
  from Cons.IH [OF step] entry show ?case
    by simp
qed

lemma register_in_order_accepts:
  "accepts w sel \<Longrightarrow>
     register_in_order w sel ids tr = (Inr (ids @ map fst sel), tr @ map (registration \<circ> snd) sel)"
  by (induction sel arbitrary: ids tr) (auto simp: accepts_def)

lemma register_in_order_enabled:
  "register_in_order w (map (\<lambda>(i, t). (i, t\<lparr>enabled := f i t\<rparr>)) sel) ids tr =
     register_in_order w sel ids tr"
  by (induction sel arbitrary: ids tr) (auto simp: registration_def split: option.splits)

lemma filter_requested_enabled:
  "filter (\<lambda>entry. Set_has st (fst entry)) (map (\<lambda>(i, t). (i, t\<lparr>enabled := f i t\<rparr>)) reg) =
     map (\<lambda>(i, t). (i, t\<lparr>enabled := f i t\<rparr>)) (filter (\<lambda>entry. Set_has st (fst entry)) reg)"
  by (induction reg) auto

lemma filter_requested_absent:
  "z \<notin> fst ` set reg \<Longrightarrow>
     filter (\<lambda>entry. Set_has (Set_add st z) (fst entry)) reg =
     filter (\<lambda>entry. Set_has st (fst entry)) reg"
  by (rule filter_cong) (auto simp: Set_add_def Set_has_def)

lemma Set_size_add: "0 < Set_size st \<Longrightarrow> 0 < Set_size (Set_add st z)"
  by (simp add: Set_size_def Set_add_def)

lemma shouldRegister_requested:
  "0 < Set_size st \<Longrightarrow>
     filter (\<lambda>entry. shouldRegister st (fst entry) (snd entry)) reg = requested_of st reg"
  by (simp add: shouldRegister_def requested_of_def)

lemma shouldRegister_defaults:
  "Set_size st = 0 \<Longrightarrow>
     filter (\<lambda>entry. shouldRegister st (fst entry) (snd entry)) reg = defaults_of reg"
  by (simp add: shouldRegister_def defaults_of_def)

lemma set_requested_of: "fst ` set (requested_of st reg) = set st \<inter> fst ` set reg"
  by (auto simp: requested_of_def Set_has_def)

lemma specifiedTools_Str:
  "tools a = Str s \<Longrightarrow>
     specifiedTools a = Inr (new_Set (if s \<noteq> [] then map trim (split s comma) else []))"
  by (simp add: specifiedTools_def toolsString_def)

lemma specifiedTools_Arr:
  "tools a = Arr xs \<Longrightarrow>
     specifiedTools a = Inl (ErrorObject (js ''toolsString.split is not a function''))"
  by (simp add: specifiedTools_def toolsString_def)

lemma main_Arr:
  "tools a = Arr xs \<Longrightarrow>
     main w a e reg = ([], Uncaught (ErrorObject (js ''toolsString.split is not a function'')))"
  by (simp add: main_def specifiedTools_Arr)

lemma main_list_tools:
  "list_tools a \<Longrightarrow> tools a = Str s \<Longrightarrow>
     main w a e reg = (ConsoleLog (js ''Available tools:'') # concat (map list_entry reg), Exit 0)"
  by (simp add: main_def specifiedTools_Str)

text \<open>
  C1. With a non-empty requested set, \<open>setupTools\<close> registers the entries of the registry
  whose id is requested, and no other: its run is the registration, in order, of that
  selection, whose ids are the requested ids that are keys of the registry. When it returns
  it returns those ids, and it returns whenever the SDK accepts those registrations. A
  requested id that is no key of the registry changes nothing, and neither do the
  enabled-by-default flags.
\<close>

theorem setupTools_requested:
  assumes "0 < Set_size st"
  shows "setupTools w st reg tr = register_in_order w (requested_of st reg) [] tr
    \<and> set (map fst (requested_of st reg)) = set st \<inter> fst ` set reg
    \<and> (\<forall>ids tr'. setupTools w st reg tr = (Inr ids, tr') \<longrightarrow>
          ids = map fst (requested_of st reg) \<and>
          tr' = tr @ map (registration \<circ> snd) (requested_of st reg))
    \<and> (accepts w (requested_of st reg) \<longrightarrow>
          setupTools w st reg tr =
            (Inr (map fst (requested_of st reg)),
             tr @ map (registration \<circ> snd) (requested_of st reg)))
    \<and> (\<forall>z. z \<notin> fst ` set reg \<longrightarrow>
          setupTools w (Set_add st z) reg tr = setupTools w st reg tr)
    \<and> (\<forall>f. setupTools w st (map (\<lambda>(i, t). (i, t\<lparr>enabled := f i t\<rparr>)) reg) tr =
          setupTools w st reg tr)"
proof -
  have eq: "setupTools w st reg tr = register_in_order w (requested_of st reg) [] tr" for reg
    using assms by (simp add: setupTools_refines shouldRegister_requested)
  have keys: "set (map fst (requested_of st reg)) = set st \<inter> fst ` set reg"
    by (simp add: set_requested_of)
  have returns: "ids = map fst (requested_of st reg) \<and>
      tr' = tr @ map (registration \<circ> snd) (requested_of st reg)"
    if "setupTools w st reg tr = (Inr ids, tr')" for ids tr'
    using that register_in_order_returns [of w "requested_of st reg" "[]" tr ids tr']
    by (simp add: eq)
  have total: "setupTools w st reg tr =
      (Inr (map fst (requested_of st reg)), tr @ map (registration \<circ> snd) (requested_of st reg))"
    if "accepts w (requested_of st reg)"
    using register_in_order_accepts [OF that, of "[]" tr] by (simp add: eq)
  have absent: "setupTools w (Set_add st z) reg tr = setupTools w st reg tr"
    if "z \<notin> fst ` set reg" for z
    using assms that
    by (simp add: setupTools_refines shouldRegister_requested Set_size_add requested_of_def
        filter_requested_absent)
  have flags: "setupTools w st (map (\<lambda>(i, t). (i, t\<lparr>enabled := f i t\<rparr>)) reg) tr =
      setupTools w st reg tr" for f
    by (simp add: eq requested_of_def filter_requested_enabled register_in_order_enabled)
  from eq keys returns total absent flags show ?thesis
    by blast
qed

theorem setupTools_requested_witness:
  "0 < Set_size [js ''b'', js ''z'']
   \<and> setupTools sample_world [js ''b'', js ''z''] sample_registry [] =
       (Inr [js ''b''], [ToolRegistered (js ''B'') (js ''second'') () ()])
   \<and> setupTools sample_world (Set_add [js ''b''] (js ''z'')) sample_registry [] =
       setupTools sample_world [js ''b''] sample_registry []"
proof -
  have size: "0 < Set_size [js ''b'', js ''z'']" and size': "0 < Set_size [js ''b'']"
    by (simp_all add: Set_size_def)
  have sel: "requested_of [js ''b'', js ''z''] sample_registry =
      [(js ''b'', \<lparr>name = js ''B'', description = js ''second'', schema = (), handler = (),
                   enabled = False\<rparr>)]"
    by (simp add: requested_of_def sample_registry_def Set_has_def js_def)
  have acc: "accepts sample_world (requested_of [js ''b'', js ''z''] sample_registry)"
    by (simp add: accepts_def sample_world_def)
  have absent: "js ''z'' \<notin> fst ` set sample_registry"
    by (simp add: sample_registry_def js_def)
  from setupTools_requested [OF size, of sample_world sample_registry "[]"] acc
  have "setupTools sample_world [js ''b'', js ''z''] sample_registry [] =
      (Inr (map fst (requested_of [js ''b'', js ''z''] sample_registry)),
       [] @ map (registration \<circ> snd) (requested_of [js ''b'', js ''z''] sample_registry))"
    by blast
  moreover from setupTools_requested [OF size', of sample_world sample_registry "[]"] absent
  have "setupTools sample_world (Set_add [js ''b''] (js ''z'')) sample_registry [] =
      setupTools sample_world [js ''b''] sample_registry []"
    by blast
  ultimately show ?thesis
    using size by (simp add: sel registration_def)
qed

text \<open>
  C2. With an empty requested set, \<open>setupTools\<close> registers the entries whose
  enabled-by-default flag is true, and no other: its run is the registration, in order, of
  that selection. When every flag is false the selection is empty and \<open>setupTools\<close>
  returns the empty list, with no registration and no error.
\<close>

theorem setupTools_defaults:
  assumes "Set_size st = 0"
  shows "setupTools w st reg tr = register_in_order w (defaults_of reg) [] tr
    \<and> (\<forall>ids tr'. setupTools w st reg tr = (Inr ids, tr') \<longrightarrow>
          ids = map fst (defaults_of reg) \<and>
          tr' = tr @ map (registration \<circ> snd) (defaults_of reg))
    \<and> (accepts w (defaults_of reg) \<longrightarrow>
          setupTools w st reg tr =
            (Inr (map fst (defaults_of reg)), tr @ map (registration \<circ> snd) (defaults_of reg)))
    \<and> ((\<forall>entry \<in> set reg. \<not> enabled (snd entry)) \<longrightarrow>
          defaults_of reg = [] \<and> setupTools w st reg tr = (Inr [], tr))"
proof -
  have eq: "setupTools w st reg tr = register_in_order w (defaults_of reg) [] tr"
    using assms by (simp add: setupTools_refines shouldRegister_defaults)
  have returns: "ids = map fst (defaults_of reg) \<and>
      tr' = tr @ map (registration \<circ> snd) (defaults_of reg)"
    if "setupTools w st reg tr = (Inr ids, tr')" for ids tr'
    using that register_in_order_returns [of w "defaults_of reg" "[]" tr ids tr']
    by (simp add: eq)
  have total: "setupTools w st reg tr =
      (Inr (map fst (defaults_of reg)), tr @ map (registration \<circ> snd) (defaults_of reg))"
    if "accepts w (defaults_of reg)"
    using register_in_order_accepts [OF that, of "[]" tr] by (simp add: eq)
  have none: "defaults_of reg = [] \<and> setupTools w st reg tr = (Inr [], tr)"
    if "\<forall>entry \<in> set reg. \<not> enabled (snd entry)"
  proof -
    from that have "defaults_of reg = []"
      by (simp add: defaults_of_def)
    then show ?thesis
      by (simp add: eq)
  qed
  from eq returns total none show ?thesis
    by blast
qed

theorem setupTools_defaults_witness:
  "Set_size [] = 0
   \<and> setupTools sample_world [] sample_registry [] =
       (Inr [js ''a''], [ToolRegistered (js ''A'') (js ''first'') () ()])
   \<and> defaults_of (tl sample_registry) = []
   \<and> setupTools sample_world [] (tl sample_registry) [] = (Inr [], [])"
proof -
  have size: "Set_size [] = 0"
    by (simp add: Set_size_def)
  have sel: "defaults_of sample_registry =
      [(js ''a'', \<lparr>name = js ''A'', description = js ''first'', schema = (), handler = (),
                   enabled = True\<rparr>)]"
    by (simp add: defaults_of_def sample_registry_def)
  have acc: "accepts sample_world (defaults_of sample_registry)"
    by (simp add: accepts_def sample_world_def)
  have off: "\<forall>entry \<in> set (tl sample_registry). \<not> enabled (snd entry)"
    by (simp add: sample_registry_def)
  from setupTools_defaults [OF size, of sample_world sample_registry "[]"] acc
  have "setupTools sample_world [] sample_registry [] =
      (Inr (map fst (defaults_of sample_registry)),
       [] @ map (registration \<circ> snd) (defaults_of sample_registry))"
    by blast
  moreover from setupTools_defaults [OF size, of sample_world "tl sample_registry" "[]"] off
  have "defaults_of (tl sample_registry) = [] \<and>
      setupTools sample_world [] (tl sample_registry) [] = (Inr [], [])"
    by blast
  ultimately show ?thesis
    using size by (simp add: sel registration_def)
qed

text \<open>
  C3. For every requested set, \<open>setupTools\<close> goes through the registry in its order: its
  run is the registration of the entries that \<open>shouldRegister\<close> selects, as they follow
  each other in the registry. The ids it returns are those of that selection, a subsequence
  of the registry's keys, and the listing mode prints the entries of the registry in the
  same order; it prints nothing at all when \<^verbatim>\<open>--tools\<close> was repeated, since the module
  has then ended before the listing.
\<close>

theorem setupTools_registry_order:
  "setupTools w st reg tr =
     register_in_order w (filter (\<lambda>entry. shouldRegister st (fst entry) (snd entry)) reg) [] tr
   \<and> (\<forall>ids tr'. setupTools w st reg tr = (Inr ids, tr') \<longrightarrow>
         ids = map fst (filter (\<lambda>entry. shouldRegister st (fst entry) (snd entry)) reg) \<and>
         subseq ids (map fst reg) \<and>
         tr' = tr @ map (registration \<circ> snd)
                      (filter (\<lambda>entry. shouldRegister st (fst entry) (snd entry)) reg))
   \<and> (accepts w (filter (\<lambda>entry. shouldRegister st (fst entry) (snd entry)) reg) \<longrightarrow>
         fst (setupTools w st reg tr) =
           Inr (map fst (filter (\<lambda>entry. shouldRegister st (fst entry) (snd entry)) reg)))
   \<and> (list_tools a \<longrightarrow>
         fst (main w a e reg) =
           (case tools a of
              Str s \<Rightarrow> ConsoleLog (js ''Available tools:'') # concat (map list_entry reg)
            | Arr xs \<Rightarrow> []))"
proof -
  let ?sel = "filter (\<lambda>entry. shouldRegister st (fst entry) (snd entry)) reg"
  have eq: "setupTools w st reg tr = register_in_order w ?sel [] tr"
    by (rule setupTools_refines)
  have returns: "ids = map fst ?sel \<and> subseq ids (map fst reg) \<and>
      tr' = tr @ map (registration \<circ> snd) ?sel"
    if "setupTools w st reg tr = (Inr ids, tr')" for ids tr'
  proof -
    from that register_in_order_returns [of w ?sel "[]" tr ids tr']
    have res: "ids = map fst ?sel \<and> tr' = tr @ map (registration \<circ> snd) ?sel"
      by (simp add: eq)
    have "subseq (map fst ?sel) (map fst reg)"
      by (simp add: subseq_map)
    with res show ?thesis
      by simp
  qed
  have total: "fst (setupTools w st reg tr) = Inr (map fst ?sel)" if "accepts w ?sel"
    using register_in_order_accepts [OF that, of "[]" tr] by (simp add: eq)
  have listing: "fst (main w a e reg) =
      (case tools a of
         Str s \<Rightarrow> ConsoleLog (js ''Available tools:'') # concat (map list_entry reg)
       | Arr xs \<Rightarrow> [])" if "list_tools a"
    using that by (cases "tools a") (simp_all add: main_list_tools main_Arr)
  from eq returns total listing show ?thesis
    by blast
qed

theorem setupTools_registry_order_witness:
  "fst (setupTools sample_world [js ''b'', js ''a''] sample_registry []) =
     Inr [js ''a'', js ''b'']
   \<and> list_tools \<lparr>tools = Str [], list_tools = True\<rparr>
   \<and> fst (main sample_world \<lparr>tools = Str [], list_tools = True\<rparr>
            \<lparr>EXA_API_KEY = None, PORT = None\<rparr> (tl sample_registry)) =
       [ConsoleLog (js ''Available tools:''), ConsoleLog (js ''- b: B''),
        ConsoleLog (js ''  Description: second''), ConsoleLog (js ''  Enabled by default: No''),
        ConsoleLog []]"
proof -
  let ?st = "[js ''b'', js ''a'']"
  have sel: "filter (\<lambda>entry. shouldRegister ?st (fst entry) (snd entry)) sample_registry =
      sample_registry"
    by (simp add: shouldRegister_def Set_size_def Set_has_def sample_registry_def)
  have acc: "accepts sample_world
      (filter (\<lambda>entry. shouldRegister ?st (fst entry) (snd entry)) sample_registry)"
    by (simp add: accepts_def sample_world_def)
  have flag: "list_tools \<lparr>tools = Str [], list_tools = True\<rparr>"
    by simp
  from setupTools_registry_order [of sample_world ?st sample_registry "[]"
      "\<lparr>tools = Str [], list_tools = True\<rparr>" "\<lparr>EXA_API_KEY = None, PORT = None\<rparr>"] acc
  have "fst (setupTools sample_world ?st sample_registry []) =
      Inr (map fst (filter (\<lambda>entry. shouldRegister ?st (fst entry) (snd entry)) sample_registry))"
    by blast
  moreover
  from setupTools_registry_order [of sample_world "[]" "tl sample_registry" "[]"
      "\<lparr>tools = Str [], list_tools = True\<rparr>" "\<lparr>EXA_API_KEY = None, PORT = None\<rparr>"] flag
  have "fst (main sample_world \<lparr>tools = Str [], list_tools = True\<rparr>
            \<lparr>EXA_API_KEY = None, PORT = None\<rparr> (tl sample_registry)) =
       ConsoleLog (js ''Available tools:'') # concat (map list_entry (tl sample_registry))"
    by simp
  ultimately show ?thesis
    by (simp add: sel) (simp add: sample_registry_def list_entry_def js_def)
qed

section \<open>Transport selection\<close>

lemma http_attempt_throws:
  "http_throws w e err \<Longrightarrow> http_attempt w e tr = (Inl err, tr)"
  by (auto simp: http_throws_def http_attempt_def)

lemma stdio_fallback_unserialisable:
  "JSON_stringify w err = Inl err2 \<Longrightarrow> stdio_fallback w err tr = (Inl err2, tr)"
  by (simp add: stdio_fallback_def)

lemma stdio_fallback_throws:
  "JSON_stringify w err = Inr text \<Longrightarrow> stdio_throws w err2 \<Longrightarrow>
     stdio_fallback w err tr =
       (Inl err2, tr @ [Log (js ''[EXA-MCP-DEBUG] Failed to load HTTP transport: '' @ text)])"
  by (auto simp: stdio_throws_def stdio_fallback_def)







section \<open>The requested set comes first\<close>

text \<open>
  With \<^verbatim>\<open>--tools\<close> given at most once: listing mode prints the heading and, for every
  entry of the registry, its id and name, its description and its default flag, then
  exits with status 0, whatever the environment and the collaborators.
\<close>

lemma list_tools_prints_registry:
  assumes "list_tools a" and "tools a = Str s"
  shows "main w a e reg =
       (ConsoleLog (js ''Available tools:'') # concat (map list_entry reg), Exit 0)
    \<and> main w a e reg = main w' a e' reg
    \<and> (\<forall>toolId t. (toolId, t) \<in> set reg \<longrightarrow>
          ConsoleLog (js ''- '' @ toolId @ js '': '' @ name t) \<in> set (fst (main w a e reg)) \<and>
          ConsoleLog (js ''  Description: '' @ description t) \<in> set (fst (main w a e reg)) \<and>
          ConsoleLog (js ''  Enabled by default: '' @ (if enabled t then js ''Yes'' else js ''No''))
            \<in> set (fst (main w a e reg)))"
proof -
  have eq: "main w a e reg =
      (ConsoleLog (js ''Available tools:'') # concat (map list_entry reg), Exit 0)" for w e
    using assms by (simp add: main_list_tools)
  have lines: "set (list_entry (toolId, t)) \<subseteq> set (fst (main w a e reg))"
    if "(toolId, t) \<in> set reg" for toolId t
    using that by (auto simp: eq)
  show ?thesis
    using lines by (auto simp: eq list_entry_def)
qed

text \<open>
  With \<^verbatim>\<open>--tools\<close> given at most once and outside listing mode: when
  \<^verbatim>\<open>EXA_API_KEY\<close> is not set the module throws ``EXA_API_KEY environment variable is
  required'' at top level before anything else happens.
\<close>

lemma missing_api_key_is_fatal:
  assumes "\<not> list_tools a" and "tools a = Str s" and "EXA_API_KEY e = None"
  shows "main w a e reg =
     ([], Uncaught (ErrorObject (js ''EXA_API_KEY environment variable is required'')))"
  using assms by (simp add: main_def specifiedTools_Str)

text \<open>
  C5, at \<^verbatim>\<open>--tools a --tools b\<close> without the credential: line 32 throws a
  \<^verbatim>\<open>TypeError\<close> before the check of the credential is reached, so the error that ends
  the process is not the one about \<^verbatim>\<open>EXA_API_KEY\<close>.
\<close>

theorem repeated_tools_hide_missing_key:
  "main w repeated_tools_argv keyless_env reg =
     ([], Uncaught (ErrorObject (js ''toolsString.split is not a function'')))"
  by (simp add: main_Arr repeated_tools_argv_def)

text \<open>
  C6, at \<^verbatim>\<open>--list-tools --tools a --tools b\<close>: line 32 throws a \<^verbatim>\<open>TypeError\<close> before
  the listing branch is reached, so nothing is printed and the process does not exit with
  status 0.
\<close>

theorem repeated_tools_prevent_listing:
  "main w repeated_tools_listing_argv e reg =
     ([], Uncaught (ErrorObject (js ''toolsString.split is not a function'')))"
  by (simp add: main_Arr repeated_tools_listing_argv_def)

section \<open>Transport events of a run\<close>

lemma transport_events_append [simp]:
  "transport_events (tr @ tr') = transport_events tr @ transport_events tr'"
  by (simp add: transport_events_def)

lemma transport_events_simps [simp]:
  "transport_events [] = []"
  "transport_events (ev # tr) =
     (if is_transport_event ev then ev # transport_events tr else transport_events tr)"
  by (simp_all add: transport_events_def)

lemma transport_events_register_in_order:
  "transport_events (snd (register_in_order w sel ids tr)) = transport_events tr"
  by (induction sel arbitrary: ids tr) (auto simp: registration_def split: option.splits)

lemma transport_events_setupTools:
  "transport_events (snd (setupTools w st reg tr)) = transport_events tr"
  by (simp add: setupTools_refines transport_events_register_in_order)

lemma transport_events_list_entry: "transport_events (concat (map list_entry reg)) = []"
  by (induction reg) (auto simp: list_entry_def)

lemma fst_transport_selector:
  "fst (transport_selector w e tr) = fst (transport_selector w e [])"
  by (simp add: transport_selector_def http_attempt_def stdio_fallback_def Let_def
      split: option.splits sum.splits)

lemma transport_selector_cases:
  "(\<exists>x. fst (transport_selector w e tr) = Inl x \<and>
         transport_events (snd (transport_selector w e tr)) = transport_events tr)
   \<or> (\<exists>t u. (t = Stdio \<or> t = StreamableHTTP (port_selection e)) \<and>
         fst (transport_selector w e tr) = Inr (t, u) \<and>
         transport_events (snd (transport_selector w e tr)) =
           transport_events tr @ [TransportConstructed t])"
  by (auto simp: transport_selector_def http_attempt_def stdio_fallback_def Let_def
      split: option.splits sum.splits)

lemma run_try_cases:
  "(\<exists>x. fst (run_try w e st reg tr) = Inl x \<and>
         transport_events (snd (run_try w e st reg tr)) = transport_events tr)
   \<or> (\<exists>x t. (t = Stdio \<or> t = StreamableHTTP (port_selection e)) \<and>
         fst (run_try w e st reg tr) = Inl x \<and>
         transport_events (snd (run_try w e st reg tr)) =
           transport_events tr @ [TransportConstructed t, OnerrorAttached t])
   \<or> (\<exists>t. (t = Stdio \<or> t = StreamableHTTP (port_selection e)) \<and>
         fst (run_try w e st reg tr) = Inr () \<and>
         transport_events (snd (run_try w e st reg tr)) =
           transport_events tr @ [TransportConstructed t, OnerrorAttached t, Connected t])"
proof (cases "setupTools w st reg tr")
  case (Pair r tr1)
  have tr1: "transport_events tr1 = transport_events tr"
    using transport_events_setupTools [of w st reg tr] Pair by simp
  show ?thesis
  proof (cases r)
    case (Inl x)
    with Pair tr1 show ?thesis
      by (simp add: run_try_def)
  next
    case (Inr ids)
    let ?tr2 = "tr1 @ [Log (js ''Starting Exa MCP server with '' @ dec (length ids)
                            @ js '' tools: '' @ join ids (js '', ''))]"
    from transport_selector_cases [of w e ?tr2]
    consider (throws) x where "fst (transport_selector w e ?tr2) = Inl x"
        "transport_events (snd (transport_selector w e ?tr2)) = transport_events ?tr2"
      | (returns) t u where "t = Stdio \<or> t = StreamableHTTP (port_selection e)"
        "fst (transport_selector w e ?tr2) = Inr (t, u)"
        "transport_events (snd (transport_selector w e ?tr2)) =
          transport_events ?tr2 @ [TransportConstructed t]"
      by blast
    then show ?thesis
    proof cases
      case throws
      with Pair Inr tr1 show ?thesis
        by (cases "transport_selector w e ?tr2") (simp add: run_try_def)
    next
      case returns
      with Pair Inr tr1 show ?thesis
        by (cases "transport_selector w e ?tr2"; cases "server_connect w t")
          (auto simp: run_try_def)
    qed
  qed
qed

lemma run_cases:
  "(fst (run w e st reg tr) = Inr () \<longleftrightarrow> fst (run_try w e st reg tr) = Inr ()) \<and>
   transport_events (snd (run w e st reg tr)) = transport_events (snd (run_try w e st reg tr))"
  by (cases "run_try w e st reg tr") (auto simp: run_def split: sum.splits)

lemma transport_events_ExaServer: "transport_events (ExaServer []) = []"
  by (simp add: ExaServer_def)

lemma create_and_run_cases:
  "\<exists>t. (t = Stdio \<or> t = StreamableHTTP (port_selection e))
    \<and> (transport_events (fst (create_and_run w e st reg)) = []
       \<or> transport_events (fst (create_and_run w e st reg)) =
            [TransportConstructed t, OnerrorAttached t]
       \<or> transport_events (fst (create_and_run w e st reg)) =
            [TransportConstructed t, OnerrorAttached t, Connected t])
    \<and> (snd (create_and_run w e st reg) = Completed \<longleftrightarrow>
         transport_events (fst (create_and_run w e st reg)) =
           [TransportConstructed t, OnerrorAttached t, Connected t])"
proof -
  obtain r tr1 where run: "run w e st reg (ExaServer []) = (r, tr1)"
    by (cases "run w e st reg (ExaServer [])")
  with run_cases [of w e st reg "ExaServer []"]
  have r: "fst (run_try w e st reg (ExaServer [])) = Inr () \<longleftrightarrow> r = Inr ()"
    and tr1: "transport_events (snd (run_try w e st reg (ExaServer []))) = transport_events tr1"
    by simp_all
  from run_try_cases [of w e st reg "ExaServer []"] r show ?thesis
    unfolding tr1 transport_events_ExaServer
    by (cases r) (auto simp: create_and_run_def run split: sum.splits)
qed

lemma main_without_run:
  assumes "(case specifiedTools a of Inl err \<Rightarrow> True | Inr st \<Rightarrow> list_tools a) \<or>
    (case EXA_API_KEY e of None \<Rightarrow> True | Some k \<Rightarrow> k = [])"
  shows "transport_events (fst (main w a e reg)) = [] \<and> snd (main w a e reg) \<noteq> Completed"
  using assms by (auto simp: main_def transport_events_list_entry split: sum.splits)

lemma main_with_run:
  assumes "\<not> ((case specifiedTools a of Inl err \<Rightarrow> True | Inr st \<Rightarrow> list_tools a) \<or>
    (case EXA_API_KEY e of None \<Rightarrow> True | Some k \<Rightarrow> k = []))"
  shows "\<exists>st. specifiedTools a = Inr st \<and> main w a e reg = create_and_run w e st reg"
  using assms by (auto simp: main_def split: sum.splits)

text \<open>
  C8, as amended. In every run at most one transport instance is active: the selector
  constructs the pipe transport or the network transport, never both; at most one
  transport, the constructed one, has the error observer attached and is passed to
  \<^verbatim>\<open>connect\<close>, and exactly one is observed and connected whenever \<^verbatim>\<open>run\<close> returns
  normally; nothing constructs, observes or connects a transport after that.
\<close>

theorem one_transport_per_run:
  "\<exists>t. (t = Stdio \<or> t = StreamableHTTP (port_selection e))
    \<and> (transport_events (fst (main w a e reg)) = []
       \<or> transport_events (fst (main w a e reg)) = [TransportConstructed t, OnerrorAttached t]
       \<or> transport_events (fst (main w a e reg)) =
            [TransportConstructed t, OnerrorAttached t, Connected t])
    \<and> (snd (main w a e reg) = Completed \<longrightarrow>
         transport_events (fst (main w a e reg)) =
           [TransportConstructed t, OnerrorAttached t, Connected t])"
proof (cases "(case specifiedTools a of Inl err \<Rightarrow> True | Inr st \<Rightarrow> list_tools a) \<or>
    (case EXA_API_KEY e of None \<Rightarrow> True | Some k \<Rightarrow> k = [])")
  case True
  from main_without_run [OF True, of w reg] show ?thesis
    by auto
next
  case False
  from main_with_run [OF False, of w reg] obtain st
    where "main w a e reg = create_and_run w e st reg"
    by blast
  with create_and_run_cases [of e w st reg] show ?thesis
    by auto
qed

theorem one_transport_per_run_witness:
  "snd (main sample_world sample_argv sample_env sample_registry) = Completed
   \<and> transport_events (fst (main sample_world sample_argv sample_env sample_registry)) =
       [TransportConstructed (StreamableHTTP (Num 8080)),
        OnerrorAttached (StreamableHTTP (Num 8080)),
        Connected (StreamableHTTP (Num 8080))]"
proof -
  have completed: "snd (main sample_world sample_argv sample_env sample_registry) = Completed"
    and http: "TransportConstructed (StreamableHTTP (Num 8080))
      \<in> set (transport_events (fst (main sample_world sample_argv sample_env sample_registry)))"
    by (simp_all add: run_defs sample_defs js_def)
  from one_transport_per_run [of sample_env sample_world sample_argv sample_registry] completed
  obtain t where
    "transport_events (fst (main sample_world sample_argv sample_env sample_registry)) =
       [TransportConstructed t, OnerrorAttached t, Connected t]"
    by blast
  with completed http show ?thesis
    by auto
qed

text \<open>
  C8, as stated, fails in a run whose two transports cannot be constructed: no transport is
  observed or connected, and the process exits with status 1.
\<close>

theorem some_run_connects_no_transport:
  "transport_events
     (fst (main failing_world sample_argv sample_env sample_registry)) = []
   \<and> snd (main failing_world sample_argv sample_env sample_registry) = Exit 1"
  by (simp add: run_defs sample_defs js_def)

section \<open>Failing runs\<close>

lemma run_try_setupTools_throws:
  "fst (setupTools w st reg tr) = Inl err \<Longrightarrow> fst (run_try w e st reg tr) = Inl err"
  by (cases "setupTools w st reg tr") (simp add: run_try_def)

lemma transport_selector_both_throw:
  "http_throws w e err1 \<Longrightarrow> JSON_stringify w err1 = Inr msg \<Longrightarrow> stdio_throws w err2 \<Longrightarrow>
     transport_selector w e tr =
       (Inl err2, tr @ [Log (js ''[EXA-MCP-DEBUG] Failed to load HTTP transport: '' @ msg)])"
  by (simp add: transport_selector_def http_attempt_throws stdio_fallback_throws)

lemma run_try_transports_throw:
  assumes "setupTools w st reg tr = (Inr ids, tr1)"
    and "http_throws w e err1" and "JSON_stringify w err1 = Inr msg"
    and "stdio_throws w err2"
  shows "fst (run_try w e st reg tr) = Inl err2 \<and>
    transport_events (snd (run_try w e st reg tr)) = transport_events tr"
proof -
  from transport_events_setupTools [of w st reg tr] assms(1)
  have "transport_events tr1 = transport_events tr"
    by simp
  with assms show ?thesis
    by (simp add: run_try_def transport_selector_both_throw)
qed

lemma run_try_connect_throws:
  assumes "setupTools w st reg tr = (Inr ids, tr1)"
    and "fst (transport_selector w e []) = Inr (t, u)" and "server_connect w t = Some err"
  shows "fst (run_try w e st reg tr) = Inl err"
proof -
  let ?tr2 = "tr1 @ [Log (js ''Starting Exa MCP server with '' @ dec (length ids)
                          @ js '' tools: '' @ join ids (js '', ''))]"
  from assms(2) fst_transport_selector [of w e ?tr2]
  have "fst (transport_selector w e ?tr2) = Inr (t, u)"
    by simp
  with assms(1,3) show ?thesis
    by (cases "transport_selector w e ?tr2") (simp add: run_try_def)
qed

text \<open>
  Outside listing mode and with a credential, an error thrown inside the \<^verbatim>\<open>try\<close> of
  \<^verbatim>\<open>run\<close> whose text can be read is logged and thrown again by \<^verbatim>\<open>run\<close>, then logged
  as fatal, and the process exits with status 1. That is so when \<^verbatim>\<open>setupTools\<close> throws,
  when the pipe transport fails after the network transport failed (no transport is then
  constructed), and when \<^verbatim>\<open>connect\<close> throws.
\<close>

lemma failed_run_exits_nonzero:
  assumes "\<not> list_tools a" and "specifiedTools a = Inr st"
    and "EXA_API_KEY e = Some k" and "k \<noteq> []"
  shows "(\<forall>err msg.
            fst (run_try w e st reg (ExaServer [])) = Inl err \<and> error_text err = Inr msg \<longrightarrow>
            run w e st reg (ExaServer []) =
              (Inl err,
               snd (run_try w e st reg (ExaServer []))
               @ [Log (js ''Server initialization error: '' @ msg)])
            \<and> main w a e reg =
              (snd (run_try w e st reg (ExaServer []))
               @ [Log (js ''Server initialization error: '' @ msg),
                  Log (js ''Fatal server error: '' @ msg)],
               Exit 1))
    \<and> (\<forall>err. fst (setupTools w st reg (ExaServer [])) = Inl err \<longrightarrow>
            fst (run_try w e st reg (ExaServer [])) = Inl err)
    \<and> (\<forall>ids tr1 err1 msg err2.
            setupTools w st reg (ExaServer []) = (Inr ids, tr1) \<and>
            http_throws w e err1 \<and> JSON_stringify w err1 = Inr msg \<and> stdio_throws w err2 \<longrightarrow>
            fst (run_try w e st reg (ExaServer [])) = Inl err2 \<and>
            transport_events (snd (run_try w e st reg (ExaServer []))) = [])
    \<and> (\<forall>ids tr1 t u err.
            setupTools w st reg (ExaServer []) = (Inr ids, tr1) \<and>
            fst (transport_selector w e []) = Inr (t, u) \<and> server_connect w t = Some err \<longrightarrow>
            fst (run_try w e st reg (ExaServer [])) = Inl err)"
proof -
  let ?body = "run_try w e st reg (ExaServer [])"
  have main: "main w a e reg = create_and_run w e st reg"
    using assms by (simp add: main_def)
  have fatal: "run w e st reg (ExaServer []) =
        (Inl err, snd ?body @ [Log (js ''Server initialization error: '' @ msg)])
      \<and> main w a e reg =
        (snd ?body @ [Log (js ''Server initialization error: '' @ msg),
                      Log (js ''Fatal server error: '' @ msg)], Exit 1)"
    if "fst ?body = Inl err \<and> error_text err = Inr msg" for err msg
    using that by (cases ?body) (simp add: main create_and_run_def run_def)
  have tools: "fst ?body = Inl err"
    if "fst (setupTools w st reg (ExaServer [])) = Inl err" for err
    using that by (rule run_try_setupTools_throws)
  have transports: "fst ?body = Inl err2 \<and> transport_events (snd ?body) = []"
    if "setupTools w st reg (ExaServer []) = (Inr ids, tr1) \<and> http_throws w e err1 \<and>
      JSON_stringify w err1 = Inr msg \<and> stdio_throws w err2" for ids tr1 err1 msg err2
    using that run_try_transports_throw [of w st reg "ExaServer []" ids tr1 e err1 msg err2]
    by (simp add: transport_events_ExaServer)
  have connect: "fst ?body = Inl err"
    if "setupTools w st reg (ExaServer []) = (Inr ids, tr1) \<and>
      fst (transport_selector w e []) = Inr (t, u) \<and> server_connect w t = Some err"
    for ids tr1 t u err
    using that run_try_connect_throws [of w st reg "ExaServer []" ids tr1 e t u err]
    by simp
  from fatal tools transports connect show ?thesis
    by blast
qed

text \<open>
  C7, at a \<^verbatim>\<open>connect\<close> that rejects with a value without a string conversion: the
  \<^verbatim>\<open>catch\<close> of \<^verbatim>\<open>run\<close> throws a \<^verbatim>\<open>TypeError\<close> while it builds its message, so the
  error is not logged and is not the one that leaves \<^verbatim>\<open>run\<close>; the last statement logs
  the \<^verbatim>\<open>TypeError\<close> as fatal and the process exits with status 1.
\<close>

theorem unprintable_error_is_not_logged:
  "fst (run_try unprintable_world sample_env [] sample_registry (ExaServer [])) = Inl Unprintable
   \<and> fst (run unprintable_world sample_env [] sample_registry (ExaServer [])) =
       Inl (ErrorObject (js ''Cannot convert object to primitive value''))
   \<and> main unprintable_world sample_argv sample_env sample_registry =
       ([ServerCreated, Log (js ''Server initialized''),
         ToolRegistered (js ''A'') (js ''first'') () (),
         Log (js ''Starting Exa MCP server with 1 tools: a''),
         Log (js ''[EXA-MCP-DEBUG] Failed to load HTTP transport: {}''),
         TransportConstructed Stdio, Log (js ''Using stdio transport''),
         OnerrorAttached Stdio,
         Log (js ''Fatal server error: Cannot convert object to primitive value'')],
        Exit 1)"
  by (simp add: run_defs sample_defs dec.simps js_def)

section \<open>Decimal numerals\<close>

lemma digit_code_unit:
  assumes "d < 10"
  shows "is_digit (digit_unit d)" and "digit_val (digit_unit d) = d"
    and "\<not> is_whitespace (digit_unit d)"
    and "(digit_unit d) \<noteq> 0x2D" and "(digit_unit d) \<noteq> 0x2B"
proof -
  from assms have "d \<in> {0, 1, 2, 3, 4, 5, 6, 7, 8, 9}"
    by auto
  then show "is_digit (digit_unit d)" and "digit_val (digit_unit d) = d"
    and "\<not> is_whitespace (digit_unit d)"
    and "(digit_unit d) \<noteq> 0x2D" and "(digit_unit d) \<noteq> 0x2B"
    by (auto simp: digit_unit_def is_digit_def digit_val_def is_whitespace_def)
qed

lemma dec_digits: "c \<in> set (dec n) \<Longrightarrow> is_digit c"
proof (induction n arbitrary: c rule: dec.induct)
  case (1 n)
  show ?case
  proof (cases "n < 10")
    case True
    with "1.prems" show ?thesis
      by (subst (asm) dec.simps) (simp add: digit_code_unit(1))
  next
    case False
    with "1.prems" have "c \<in> set (dec (n div 10)) \<or> c = digit_unit (n mod 10)"
      by (subst (asm) dec.simps) auto
    with False "1.IH" show ?thesis
      by (auto simp: digit_code_unit(1))
  qed
qed

lemma dec_not_Nil: "dec n \<noteq> []"
  by (subst dec.simps) simp

lemma digits_val_snoc: "digits_val (ds @ [c]) = 10 * digits_val ds + digit_val c"
  by (simp add: digits_val_def)

lemma digits_val_dec: "digits_val (dec n) = n"
proof (induction n rule: dec.induct)
  case (1 n)
  show ?case
  proof (cases "n < 10")
    case True
    then show ?thesis
      by (subst dec.simps) (simp add: digits_val_def digit_code_unit(2))
  next
    case False
    then have "digits_val (dec n) = 10 * digits_val (dec (n div 10)) + n mod 10"
      by (subst dec.simps) (simp add: digits_val_snoc digit_code_unit(2))
    with False "1.IH" show ?thesis
      by simp
  qed
qed

lemma is_digit_not_special:
  "is_digit c \<Longrightarrow> \<not> is_whitespace c \<and> c \<noteq> 0x2D \<and> c \<noteq> 0x2B"
  by (auto simp: is_digit_def is_whitespace_def word_le_nat_alt)

text \<open>A number below \<open>2 ^ 53\<close> has at most 53 binary digits and is a double.\<close>

lemma bit_length_le: "m < 2 ^ k \<Longrightarrow> bit_length m \<le> k"
proof (induction k arbitrary: m)
  case 0
  then show ?case
    by (subst bit_length.simps) simp
next
  case (Suc k)
  show ?case
  proof (cases "m = 0")
    case True
    then show ?thesis
      by (subst bit_length.simps) simp
  next
    case False
    from Suc.prems have "m div 2 < 2 ^ k"
      by simp
    from Suc.IH [OF this] False show ?thesis
      by (subst bit_length.simps) simp
  qed
qed

lemma round_to_double_exact: "m < 2 ^ 53 \<Longrightarrow> round_to_double m = Some m"
  using bit_length_le [of m 53] by (simp add: round_to_double_def)

lemma parseInt10_digits:
  "parseInt10 (dec n) =
     (case round_to_double n of None \<Rightarrow> Infinity | Some v \<Rightarrow> Num (int v))"
proof -
  obtain c cs where dec: "dec n = c # cs"
    using dec_not_Nil [of n] by (cases "dec n") auto
  have "is_digit c"
    using dec_digits [of c n] dec by simp
  then have c: "\<not> is_whitespace c" "c \<noteq> 0x2D" "c \<noteq> 0x2B"
    using is_digit_not_special by blast+
  have all: "takeWhile is_digit (dec n) = dec n"
    using dec_digits by simp
  have "parseInt10 (c # cs) =
      (case round_to_double (digits_val (c # cs)) of
         None \<Rightarrow> Infinity | Some v \<Rightarrow> Num (int v))"
    using c all dec by (simp add: parseInt10_def split: option.splits)
  moreover have "digits_val (c # cs) = n"
    using digits_val_dec [of n] dec by simp
  ultimately show ?thesis
    by (simp add: dec)
qed

lemma parseInt10_dec: "n < 2 ^ 53 \<Longrightarrow> parseInt10 (dec n) = Num (int n)"
  by (simp add: parseInt10_digits round_to_double_exact)

text \<open>
  From \<open>2 ^ 53 + 1\<close> on the number read is not always the number written:
  \<^verbatim>\<open>parseInt("9007199254740993", 10)\<close> is 9007199254740992.
\<close>

lemma bit_length_sample: "bit_length 9007199254740993 = 54"
  by (simp add: bit_length.simps)

lemma round_to_double_sample: "round_to_double 9007199254740993 = Some 9007199254740992"
  by (simp add: round_to_double_def bit_length_sample Let_def)

lemma parseInt10_rounds:
  "parseInt10 (js ''9007199254740993'') = Num 9007199254740992"
  by (simp add: parseInt10_def js_def is_whitespace_def is_digit_def digits_val_def
      digit_val_def round_to_double_sample)

text \<open>The template literal prints 8080 in full and \<open>10 ^ 21\<close> with an exponent.\<close>

lemma number_to_string_8080: "number_to_string (Num 8080) = js ''8080''"
  by (simp add: number_to_string_def positive_to_string_def candidate_def round_to_double_exact
      dec.simps digit_unit_def Let_def js_def upt_rec)

lemma number_to_string_exponent: "number_to_string (Num (10 ^ 21)) = js ''1e+21''"
  by (simp add: number_to_string_def positive_to_string_def candidate_def round_to_double_def
      bit_length.simps dec.simps digit_unit_def Let_def js_def upt_rec)

section \<open>The port of the network transport\<close>

lemma constructed_in_transport_events:
  "TransportConstructed t \<in> set tr \<Longrightarrow> TransportConstructed t \<in> set (transport_events tr)"
  by (simp add: transport_events_def)

lemma main_constructed:
  assumes "TransportConstructed t \<in> set (fst (main w a e reg))"
  shows "t = Stdio \<or> t = StreamableHTTP (port_selection e)"
proof (cases "(case specifiedTools a of Inl err \<Rightarrow> True | Inr st \<Rightarrow> list_tools a) \<or>
    (case EXA_API_KEY e of None \<Rightarrow> True | Some k \<Rightarrow> k = [])")
  case True
  from main_without_run [OF True, of w reg] constructed_in_transport_events [OF assms]
  show ?thesis
    by simp
next
  case False
  from main_with_run [OF False, of w reg] obtain st
    where "main w a e reg = create_and_run w e st reg"
    by blast
  with constructed_in_transport_events [OF assms] create_and_run_cases [of e w st reg]
  show ?thesis
    by auto
qed

text \<open>
  C9, as amended. In every run that constructs the network transport, its port is the
  value \<^verbatim>\<open>parseInt\<close> reads in base 10 from \<^verbatim>\<open>PORT\<close> when \<^verbatim>\<open>PORT\<close> is set to a
  non-empty string, and 8080 when \<^verbatim>\<open>PORT\<close> is unset or set to the empty string. When
  \<^verbatim>\<open>PORT\<close> is the decimal numeral of a number below \<open>2 ^ 53\<close> the port is that number.
\<close>

theorem network_port:
  assumes "TransportConstructed (StreamableHTTP port) \<in> set (fst (main w a e reg))"
  shows "port = port_selection e
    \<and> (\<forall>p. PORT e = Some p \<and> p \<noteq> [] \<longrightarrow> port = parseInt10 p)
    \<and> (PORT e = None \<or> PORT e = Some [] \<longrightarrow> port = Num 8080)
    \<and> (\<forall>n. n < 2 ^ 53 \<and> PORT e = Some (dec n) \<longrightarrow> port = Num (int n))"
proof -
  from main_constructed [OF assms] have port: "port = port_selection e"
    by simp
  have digits: "port_selection e = Num (int n)" if "n < 2 ^ 53 \<and> PORT e = Some (dec n)" for n
    using that by (simp add: port_selection_def dec_not_Nil parseInt10_dec)
  from port digits show ?thesis
    by (auto simp: port_selection_def)
qed

theorem network_port_witness:
  "TransportConstructed (StreamableHTTP (Num 3000))
     \<in> set (fst (main sample_world sample_argv port_3000_env sample_registry))
   \<and> parseInt10 (js ''3000'') = Num 3000
   \<and> TransportConstructed (StreamableHTTP (Num 8080))
     \<in> set (fst (main sample_world sample_argv sample_env sample_registry))"
proof -
  have parse: "parseInt10 (js ''3000'') = Num 3000"
    by (simp add: parseInt10_def js_def is_whitespace_def is_digit_def digits_val_def
        digit_val_def round_to_double_exact)
  have set: "TransportConstructed (StreamableHTTP (Num 3000))
      \<in> set (fst (main sample_world sample_argv port_3000_env sample_registry))"
    by (simp add: run_defs sample_defs port_3000_env_def parse)
      (simp add: js_def)
  have unset: "TransportConstructed (StreamableHTTP (Num 8080))
      \<in> set (fst (main sample_world sample_argv sample_env sample_registry))"
    by (simp add: run_defs sample_defs js_def)
  have port: "PORT port_3000_env = Some (js ''3000'') \<and> js ''3000'' \<noteq> []"
    by (simp add: port_3000_env_def js_def)
  from network_port [OF set] port have "Num 3000 = parseInt10 (js ''3000'')"
    by blast
  with set unset show ?thesis
    by simp
qed

text \<open>
  C9, as stated, fails when \<^verbatim>\<open>PORT\<close> is set to the empty string: the network transport
  is constructed at port 8080, and what \<^verbatim>\<open>parseInt\<close> reads from the empty string is
  \<^verbatim>\<open>NaN\<close>.
\<close>

theorem empty_PORT_selects_default:
  "PORT empty_port_env = Some []
   \<and> TransportConstructed (StreamableHTTP (Num 8080))
     \<in> set (fst (main sample_world sample_argv empty_port_env sample_registry))
   \<and> parseInt10 [] = NaN"
  by (simp add: run_defs sample_defs empty_port_env_def parseInt10_def js_def)

section \<open>The requested set of a tools string\<close>

lemma split_at_pieces:
  assumes "\<forall>c \<in> set s. c = sep \<or> P c"
  shows "(\<forall>c \<in> set (fst (split_at sep s)). P c) \<and>
    (\<forall>p \<in> set (snd (split_at sep s)). \<forall>c \<in> set p. P c)"
  using assms by (induction s) (auto split: prod.splits)

lemma split_pieces:
  "\<forall>c \<in> set s. c = sep \<or> P c \<Longrightarrow> p \<in> set (split s sep) \<Longrightarrow> \<forall>c \<in> set p. P c"
  using split_at_pieces [of s sep P] by (cases "split_at sep s") (auto simp: split_def)

lemma split_not_Nil: "split s sep \<noteq> []"
  by (cases "split_at sep s") (simp add: split_def)

lemma trim_whitespace: "\<forall>c \<in> set p. is_whitespace c \<Longrightarrow> trim p = []"
  by (auto simp: trim_def dest: set_dropWhileD)

lemma foldl_Set_add_not_Nil: "acc \<noteq> [] \<Longrightarrow> foldl Set_add acc xs \<noteq> []"
  by (induction xs arbitrary: acc) (auto simp: Set_add_def)

lemma new_Set_Nil: "new_Set [] = []"
  by (simp add: new_Set_def)

lemma new_Set_Cons: "new_Set (x # xs) = foldl Set_add [x] xs"
  by (simp add: new_Set_def Set_add_def Set_has_def)

lemma new_Set_not_Nil: "xs \<noteq> [] \<Longrightarrow> new_Set xs \<noteq> []"
  by (cases xs) (simp_all add: new_Set_Cons foldl_Set_add_not_Nil)

lemma foldl_Set_add_same: "\<forall>x \<in> set xs. x = v \<Longrightarrow> foldl Set_add [v] xs = [v]"
  by (induction xs) (auto simp: Set_add_def Set_has_def)

lemma new_Set_same: "xs \<noteq> [] \<Longrightarrow> \<forall>x \<in> set xs. x = v \<Longrightarrow> new_Set xs = [v]"
  by (cases xs) (simp_all add: new_Set_Cons foldl_Set_add_same)

lemma specifiedTools_nonempty:
  "tools a = Str s \<Longrightarrow> s \<noteq> [] \<Longrightarrow>
     specifiedTools a = Inr (new_Set (map trim (split s comma)))"
  by (simp add: specifiedTools_Str)

lemma specifiedTools_size:
  "(\<exists>st. specifiedTools a = Inr st \<and> Set_size st = 0) \<longleftrightarrow> tools a = Str []"
  by (cases "tools a")
    (auto simp: specifiedTools_Str specifiedTools_Arr Set_size_def new_Set_not_Nil split_not_Nil
      new_Set_Nil)

lemma requested_blank:
  assumes "\<forall>c \<in> set s. c = comma \<or> is_whitespace c"
  shows "new_Set (map trim (split s comma)) = [[]]"
proof -
  have "\<forall>x \<in> set (map trim (split s comma)). x = []"
    using split_pieces [OF assms] by (auto simp: trim_whitespace)
  then show ?thesis
    by (intro new_Set_same) (simp_all add: split_not_Nil)
qed

lemma setupTools_no_key:
  assumes "0 < Set_size st" and "\<forall>toolId \<in> set st. toolId \<notin> fst ` set reg"
  shows "setupTools w st reg tr = (Inr [], tr)"
proof -
  have "requested_of st reg = []"
    using assms(2) by (auto simp: requested_of_def Set_has_def filter_empty_conv)
  with assms(1) show ?thesis
    by (simp add: setupTools_refines shouldRegister_requested)
qed

text \<open>
  C10. A non-empty \<^verbatim>\<open>--tools\<close> string always gives a non-empty requested set, and only
  the empty string gives the empty set, so only the empty string selects the defaults. A
  string of commas and whitespace gives the set whose only member is the empty string.
  When no member of the requested set is a key of the registry, as for such a string and a
  registry without the empty key, \<open>setupTools\<close> registers nothing and returns the empty
  list, whatever the default flags are.
\<close>

theorem blank_tools_string_bypasses_defaults:
  assumes "tools a = Str s" and "s \<noteq> []"
  shows "\<exists>st. specifiedTools a = Inr st
    \<and> st = new_Set (map trim (split s comma))
    \<and> 0 < Set_size st
    \<and> (\<forall>a'. (\<exists>st'. specifiedTools a' = Inr st' \<and> Set_size st' = 0) \<longleftrightarrow> tools a' = Str [])
    \<and> ((\<forall>c \<in> set s. c = comma \<or> is_whitespace c) \<longrightarrow> st = [[]])
    \<and> ((\<forall>toolId \<in> set st. toolId \<notin> fst ` set reg) \<longrightarrow>
          setupTools w st reg tr = (Inr [], tr))
    \<and> ((\<forall>c \<in> set s. c = comma \<or> is_whitespace c) \<and> [] \<notin> fst ` set reg \<longrightarrow>
          setupTools w st reg tr = (Inr [], tr))"
proof -
  let ?st = "new_Set (map trim (split s comma))"
  have parsed: "specifiedTools a = Inr ?st"
    using assms by (rule specifiedTools_nonempty)
  have size: "0 < Set_size ?st"
    by (simp add: Set_size_def new_Set_not_Nil split_not_Nil)
  have blank: "?st = [[]]" if "\<forall>c \<in> set s. c = comma \<or> is_whitespace c"
    using that by (rule requested_blank)
  have none: "setupTools w ?st reg tr = (Inr [], tr)"
    if "\<forall>toolId \<in> set ?st. toolId \<notin> fst ` set reg"
    using size that by (rule setupTools_no_key)
  have none': "setupTools w ?st reg tr = (Inr [], tr)"
    if "(\<forall>c \<in> set s. c = comma \<or> is_whitespace c) \<and> [] \<notin> fst ` set reg"
    using that blank none by simp
  from parsed size specifiedTools_size blank none none' show ?thesis
    by blast
qed

theorem blank_tools_string_bypasses_defaults_witness:
  "tools \<lparr>tools = Str (js '' , ''), list_tools = False\<rparr> = Str (js '' , '')
   \<and> js '' , '' \<noteq> []
   \<and> specifiedTools \<lparr>tools = Str (js '' , ''), list_tools = False\<rparr> = Inr [[]]
   \<and> setupTools sample_world [[]] sample_registry [] = (Inr [], [])
   \<and> specifiedTools \<lparr>tools = Str [], list_tools = False\<rparr> = Inr []
   \<and> setupTools sample_world [] sample_registry [] =
       (Inr [js ''a''], [ToolRegistered (js ''A'') (js ''first'') () ()])"
proof -
  let ?a = "\<lparr>tools = Str (js '' , ''), list_tools = False\<rparr>"
  have str: "tools ?a = Str (js '' , '')"
    by simp
  have nonempty: "js '' , '' \<noteq> []"
    by (simp add: js_def)
  have blank: "\<forall>c \<in> set (js '' , ''). c = comma \<or> is_whitespace c"
    by (simp add: js_def comma_def is_whitespace_def)
  have nokey: "[] \<notin> fst ` set sample_registry"
    by (simp add: sample_registry_def js_def)
  from blank_tools_string_bypasses_defaults [OF str nonempty, of sample_registry sample_world "[]"]
  obtain st where "specifiedTools ?a = Inr st"
    and "(\<forall>c \<in> set (js '' , ''). c = comma \<or> is_whitespace c) \<longrightarrow> st = [[]]"
    and "(\<forall>c \<in> set (js '' , ''). c = comma \<or> is_whitespace c) \<and>
      [] \<notin> fst ` set sample_registry \<longrightarrow>
      setupTools sample_world st sample_registry [] = (Inr [], [])"
    by blast
  with blank nokey
  have "specifiedTools ?a = Inr [[]] \<and>
      setupTools sample_world [[]] sample_registry [] = (Inr [], [])"
    by simp
  moreover have "specifiedTools \<lparr>tools = Str [], list_tools = False\<rparr> = Inr []"
    by (simp add: specifiedTools_def toolsString_def new_Set_def)
  moreover have "setupTools sample_world [] sample_registry [] =
      (Inr [js ''a''], [ToolRegistered (js ''A'') (js ''first'') () ()])"
    by (simp add: setupTools_def shouldRegister_def Set_size_def sample_registry_def
        sample_world_def registration_def)
  ultimately show ?thesis
    using nonempty by simp
qed

end
